theory Spec2Isabelle
  imports Complex_Main "HOL-Library.Multiset"
begin

section \<open>Data model of the navigation context\<close>

text \<open>
  The development embeds \<^verbatim>\<open>src/contexts/NavigationContext.tsx\<close> together with the
  haversine distance of \<^verbatim>\<open>src/contexts/LocationContext.tsx\<close>.  A JavaScript
  \<^verbatim>\<open>number\<close> is modelled as a \<open>real\<close> (ideal arithmetic, no rounding, no NaN),
  array indices and step counters as \<open>nat\<close>, a \<^verbatim>\<open>Date\<close> as its millisecond
  time stamp, and \<^verbatim>\<open>T | null\<close> as \<open>T option\<close>.  Field names that occur in several
  interfaces of the source carry the interface as a prefix.
\<close>

record Coordinates =
  latitude :: real
  longitude :: real

record MemoryLocation = Coordinates +
  address :: string

record Memory =
  id_memory :: string
  userId :: string
  title :: string
  description :: string
  date :: int
  location :: MemoryLocation
  tags :: "string list"
  photos :: "string list"
  isPrivate :: bool
  importance :: real
  createdAt :: int
  updatedAt :: int

record RouteStep =
  step_distance :: real
  step_duration :: real
  step_startLocation :: Coordinates
  step_endLocation :: Coordinates
  instruction :: string
  maneuver :: "string option"

record RouteLeg =
  leg_distance :: real
  leg_duration :: real
  leg_startLocation :: Coordinates
  leg_endLocation :: Coordinates
  steps :: "RouteStep list"

record MemoryWaypoint =
  memory :: Memory
  distanceFromRoute :: real
  detourTime :: real
  waypointIndex :: nat

record Route =
  distance :: real
  duration :: real
  legs :: "RouteLeg list"
  memoryWaypoints :: "MemoryWaypoint list"

record NavigationState =
  origin :: "Coordinates option"
  destination :: "Coordinates option"
  currentRoute :: "Route option"
  alternativeRoutes :: "Route list"
  activeNavigation :: bool
  currentStepIndex :: nat
  upcomingMemory :: "Memory option"
  distanceToNextMemory :: "real option"
  navigationStartTime :: "int option"
  estimatedArrivalTime :: "int option"
  travelledDistance :: real

text \<open>The part of the user profile that \<^verbatim>\<open>recalculateRoute\<close> reads.\<close>

record NavigationPreferences =
  mapStyle :: string
  voiceGuidance :: bool
  maxDetourTime :: real
  transportationMode :: string

record UserProfile =
  displayName :: string
  email :: string
  photoURL :: string
  navigationPreferences :: NavigationPreferences

text \<open>
  The exceptions an operation of the context can end with: the two \<^verbatim>\<open>throw\<close>
  statements of \<^verbatim>\<open>calculateRoutes\<close> and \<^verbatim>\<open>startNavigation\<close>, the error that the
  \<^verbatim>\<open>catch\<close> block of \<^verbatim>\<open>recalculateRoute\<close> rethrows, and the \<^verbatim>\<open>TypeError\<close> of
  reading a property of \<^verbatim>\<open>undefined\<close>.
\<close>

datatype nav_error =
  OriginDestinationNotSet
  | InvalidRouteIndex
  | FailedToRecalculateRoute
  | TypeError

text \<open>
  One use of \<^verbatim>\<open>Math.random\<close> by \<^verbatim>\<open>shuffleAndSelectWaypoints\<close>: the positions that
  decide the shuffled order, and the number in \<open>[0, 1)\<close> that decides the subset size.
\<close>

record RandomDraw =
  order :: "nat list"
  fraction :: real

definition defaultNavigationState :: NavigationState where
  "defaultNavigationState =
     \<lparr>origin = None, destination = None, currentRoute = None, alternativeRoutes = [],
      activeNavigation = False, currentStepIndex = 0, upcomingMemory = None,
      distanceToNextMemory = None, navigationStartTime = None,
      estimatedArrivalTime = None, travelledDistance = 0\<rparr>"

section \<open>Distance and speed\<close>

text \<open>\<^verbatim>\<open>Math.atan2(y, x)\<close> on real arguments.\<close>

definition atan2 :: "real \<Rightarrow> real \<Rightarrow> real" where
  "atan2 y x =
     (if 0 < x then arctan (y / x)
      else if x < 0 then (if 0 \<le> y then arctan (y / x) + pi else arctan (y / x) - pi)
      else if 0 < y then pi / 2
      else if y < 0 then - (pi / 2)
      else 0)"

text \<open>The haversine formula of \<^verbatim>\<open>LocationContext.calculateDistance\<close>, in metres.\<close>

definition calculateDistance :: "Coordinates \<Rightarrow> Coordinates \<Rightarrow> real" where
  "calculateDistance from_c to_c =
     (let R = 6371000;
          phi1 = latitude from_c * pi / 180;
          phi2 = latitude to_c * pi / 180;
          dphi = (latitude to_c - latitude from_c) * pi / 180;
          dlambda = (longitude to_c - longitude from_c) * pi / 180;
          a = sin (dphi / 2) * sin (dphi / 2)
              + cos phi1 * cos phi2 * sin (dlambda / 2) * sin (dlambda / 2);
          c = 2 * atan2 (sqrt a) (sqrt (1 - a))
      in R * c)"

text \<open>\<^verbatim>\<open>String.prototype.toLowerCase\<close> on ASCII text.\<close>

definition toLowerCase :: "string \<Rightarrow> string" where
  "toLowerCase s =
     map (\<lambda>c. let n = (of_char c :: nat) in if 65 \<le> n \<and> n \<le> 90 then char_of (n + 32) else c) s"

definition getBaseSpeedForMode :: "string \<Rightarrow> real" where
  "getBaseSpeedForMode mode =
     (let m = toLowerCase mode
      in if m = ''walking'' then 1.4
         else if m = ''bicycling'' then 4.2
         else if m = ''transit'' then 8.3
         else 13.9)"

text \<open>The coordinate object the source builds from \<^verbatim>\<open>memory.location\<close>.\<close>

definition memoryCoord :: "Memory \<Rightarrow> Coordinates" where
  "memoryCoord m =
     \<lparr>latitude = latitude (location m), longitude = longitude (location m)\<rparr>"

section \<open>Waypoint selection\<close>

text \<open>
  The body of the \<^verbatim>\<open>forEach\<close> callback of \<^verbatim>\<open>findPotentialMemoryWaypoints\<close>: the
  waypoint it would push for the memory at position \<open>index\<close>.
\<close>

definition detourWaypoint :: "Coordinates \<Rightarrow> Coordinates \<Rightarrow> real \<Rightarrow> nat \<times> Memory \<Rightarrow> MemoryWaypoint" where
  "detourWaypoint origin_c destination_c directDistance im =
     (let index = fst im;
          mem = snd im;
          averageSpeed = 50;
          distanceFromOrigin = calculateDistance origin_c (memoryCoord mem);
          distanceFromDestination = calculateDistance (memoryCoord mem) destination_c;
          totalDistanceViaMemory = distanceFromOrigin + distanceFromDestination;
          extraDistance = totalDistanceViaMemory - directDistance;
          detourTimeMinutes = (extraDistance / 1000) / (averageSpeed / 60)
      in \<lparr>memory = mem, distanceFromRoute = extraDistance,
          detourTime = detourTimeMinutes, waypointIndex = index\<rparr>)"

text \<open>
  The loop pushes, in the order of \<open>memories\<close>, exactly the waypoints whose detour time
  passes the test \<^verbatim>\<open>detourTimeMinutes <= maxDetourMinutes\<close>.
\<close>

definition findPotentialMemoryWaypoints ::
  "Coordinates \<Rightarrow> Coordinates \<Rightarrow> Memory list \<Rightarrow> real \<Rightarrow> MemoryWaypoint list" where
  "findPotentialMemoryWaypoints origin_c destination_c memories maxDetourMinutes =
     (let directDistance = calculateDistance origin_c destination_c
      in filter (\<lambda>w. detourTime w \<le> maxDetourMinutes)
           (map (detourWaypoint origin_c destination_c directDistance)
              (List.enumerate 0 memories)))"

definition priorityScore :: "MemoryWaypoint \<Rightarrow> real" where
  "priorityScore w = importance (memory w) * 10 - detourTime w * 5"

text \<open>
  \<^verbatim>\<open>Array.prototype.sort\<close> is stable; with the comparator \<^verbatim>\<open>scoreB - scoreA\<close> it
  sorts by falling score and keeps the input order of equal scores.
\<close>

definition sortWaypointsByPriority :: "MemoryWaypoint list \<Rightarrow> MemoryWaypoint list" where
  "sortWaypointsByPriority waypoints = sort_key (\<lambda>w. - priorityScore w) waypoints"

text \<open>\<^verbatim>\<open>xs.slice(0, n)\<close>: a negative \<open>n\<close> counts from the end.\<close>

definition slice0 :: "int \<Rightarrow> 'a list \<Rightarrow> 'a list" where
  "slice0 n xs = take (if n < 0 then nat (int (length xs) + n) else nat n) xs"

section \<open>Sequencing the selected waypoints\<close>

text \<open>
  The \<^verbatim>\<open>for\<close> loop of \<^verbatim>\<open>orderWaypointsByGreedyPath\<close> that looks for the closest
  unvisited waypoint.  \<open>i\<close> is the loop index, \<open>closestIndex\<close> and \<open>closestDistance\<close> the
  two variables it updates; \<open>None\<close> stands for the initial \<^verbatim>\<open>Infinity\<close>, which every
  distance is below.
\<close>

fun findClosest :: "Coordinates \<Rightarrow> MemoryWaypoint list \<Rightarrow> nat \<Rightarrow> nat \<Rightarrow> real option \<Rightarrow> nat" where
  "findClosest currentPoint [] i closestIndex closestDistance = closestIndex"
| "findClosest currentPoint (waypoint # rest) i closestIndex closestDistance =
     (let d = calculateDistance currentPoint (memoryCoord (memory waypoint))
      in if (case closestDistance of None \<Rightarrow> True | Some c \<Rightarrow> d < c)
         then findClosest currentPoint rest (Suc i) i (Some d)
         else findClosest currentPoint rest (Suc i) closestIndex closestDistance)"

text \<open>\<^verbatim>\<open>unvisited.splice(k, 1)\<close>: the array without its element at index \<open>k\<close>.\<close>

definition spliceOut :: "nat \<Rightarrow> 'a list \<Rightarrow> 'a list" where
  "spliceOut k xs = take k xs @ drop (Suc k) xs"

text \<open>The \<^verbatim>\<open>while (unvisited.length > 0)\<close> loop, with \<open>result\<close> as accumulator.\<close>

function greedyLoop :: "Coordinates \<Rightarrow> MemoryWaypoint list \<Rightarrow> MemoryWaypoint list \<Rightarrow> MemoryWaypoint list" where
  "greedyLoop currentPoint unvisited result =
     (if unvisited = [] then result
      else (let closestIndex = findClosest currentPoint unvisited 0 0 None;
                nextWaypoint = unvisited ! closestIndex
            in greedyLoop (memoryCoord (memory nextWaypoint))
                 (spliceOut closestIndex unvisited) (result @ [nextWaypoint])))"
  by pat_completeness auto
termination
proof (relation "measure (\<lambda>(p, unvisited, r). length unvisited)")
  show "wf (measure (\<lambda>(p, unvisited, r). length unvisited))"
    by simp
next
  fix currentPoint :: Coordinates
  fix unvisited result :: "MemoryWaypoint list"
  fix closestIndex :: nat and nextWaypoint :: MemoryWaypoint
  assume nonempty: "unvisited \<noteq> []"
    and ci: "closestIndex = findClosest currentPoint unvisited 0 0 None"
  have bound: "k < i + length ws \<or> (ws = [] \<and> k < i) \<Longrightarrow> findClosest p ws i k cd < i + length ws \<or> (ws = [] \<and> findClosest p ws i k cd < i)"
    for p ws i k cd
  proof (induction ws arbitrary: i k cd)
    case Nil
    then show ?case by simp
  next
    case (Cons w ws)
    have a: "findClosest p ws (Suc i) i (Some (calculateDistance p (memoryCoord (memory w)))) < Suc i + length ws
        \<or> (ws = [] \<and> findClosest p ws (Suc i) i (Some (calculateDistance p (memoryCoord (memory w)))) < Suc i)"
      by (rule Cons.IH) (cases ws; simp)
    have b: "findClosest p ws (Suc i) k cd < Suc i + length ws
        \<or> (ws = [] \<and> findClosest p ws (Suc i) k cd < Suc i)"
      using Cons.prems by (intro Cons.IH) (cases ws; auto)
    from a b show ?case
      by (auto simp: Let_def)
  qed
  from nonempty have "closestIndex < length unvisited"
    using bound [of 0 0 unvisited currentPoint None] ci by auto
  then show "((memoryCoord (memory nextWaypoint), spliceOut closestIndex unvisited,
                result @ [nextWaypoint]),
              (currentPoint, unvisited, result))
             \<in> measure (\<lambda>(p, unvisited, r). length unvisited)"
    by (simp add: spliceOut_def)
qed

declare greedyLoop.simps [simp del]

text \<open>
  The early return for at most one waypoint hands the input back as it is; otherwise the
  visiting order is built and \<^verbatim>\<open>waypointIndex\<close> is set to the position in the path.
  The parameter \<open>end_c\<close> is unused, as in the source.
\<close>

definition orderWaypointsByGreedyPath ::
  "Coordinates \<Rightarrow> Coordinates \<Rightarrow> MemoryWaypoint list \<Rightarrow> MemoryWaypoint list" where
  "orderWaypointsByGreedyPath start_c end_c waypoints =
     (if length waypoints \<le> 1 then waypoints
      else (let result = greedyLoop start_c waypoints []
            in map (\<lambda>(index, waypoint). waypoint\<lparr>waypointIndex := index\<rparr>)
                 (List.enumerate 0 result)))"

section \<open>Route assembly\<close>

text \<open>Decimal digits of a natural number, as a template literal prints an integer.\<close>

fun decimal :: "nat \<Rightarrow> string" where
  "decimal n =
     (if n < 10 then [''0123456789'' ! n]
      else decimal (n div 10) @ [''0123456789'' ! (n mod 10)])"

declare decimal.simps [simp del]

text \<open>\<^verbatim>\<open>`${Math.round(x)}`\<close> for \<open>x\<close> below \<open>10^21\<close> in absolute value.\<close>

definition showRounded :: "real \<Rightarrow> string" where
  "showRounded x =
     (let r = \<lfloor>x + 1 / 2\<rfloor>
      in if r < 0 then ''-'' @ decimal (nat (- r)) else decimal (nat r))"

definition createSimulatedSteps :: "Coordinates \<Rightarrow> Coordinates \<Rightarrow> real \<Rightarrow> real \<Rightarrow> RouteStep list" where
  "createSimulatedSteps start_c end_c dist_m dur_s =
     [\<lparr>step_distance = dist_m, step_duration = dur_s, step_startLocation = start_c,
       step_endLocation = end_c,
       instruction = ''Travel '' @ showRounded dist_m @ '' meters to the next point'',
       maneuver = None\<rparr>]"

text \<open>
  The \<^verbatim>\<open>for\<close> loop of \<^verbatim>\<open>generateRouteWithWaypoints\<close> over the ordered waypoints.  The
  accumulator holds \<open>legs\<close>, \<open>totalDistance\<close>, \<open>totalDuration\<close> and \<open>prevPoint\<close>.
\<close>

fun legsLoop :: "real \<Rightarrow> MemoryWaypoint list \<Rightarrow> RouteLeg list \<times> real \<times> real \<times> Coordinates
    \<Rightarrow> RouteLeg list \<times> real \<times> real \<times> Coordinates" where
  "legsLoop baseSpeed [] acc = acc"
| "legsLoop baseSpeed (waypoint # rest) (legs_acc, totalDistance, totalDuration, prevPoint) =
     (let waypointCoord = memoryCoord (memory waypoint);
          legDistance = calculateDistance prevPoint waypointCoord;
          legDuration = legDistance / baseSpeed;
          steps_l = createSimulatedSteps prevPoint waypointCoord legDistance legDuration
      in legsLoop baseSpeed rest
           (legs_acc @ [\<lparr>leg_distance = legDistance, leg_duration = legDuration,
                          leg_startLocation = prevPoint, leg_endLocation = waypointCoord,
                          steps = steps_l\<rparr>],
            totalDistance + legDistance, totalDuration + legDuration, waypointCoord))"

definition generateRouteWithWaypoints ::
  "Coordinates \<Rightarrow> Coordinates \<Rightarrow> MemoryWaypoint list \<Rightarrow> string \<Rightarrow> Route" where
  "generateRouteWithWaypoints origin_c destination_c waypoints transportMode =
     (let directDistance = calculateDistance origin_c destination_c;
          baseSpeed = getBaseSpeedForMode transportMode;
          directDuration = directDistance / baseSpeed
      in if length waypoints = 0
         then \<lparr>distance = directDistance, duration = directDuration,
               legs = [\<lparr>leg_distance = directDistance, leg_duration = directDuration,
                        leg_startLocation = origin_c, leg_endLocation = destination_c,
                        steps = [\<lparr>step_distance = directDistance,
                                  step_duration = directDuration,
                                  step_startLocation = origin_c,
                                  step_endLocation = destination_c,
                                  instruction = ''Head to destination'',
                                  maneuver = None\<rparr>]\<rparr>],
               memoryWaypoints = []\<rparr>
         else (let orderedWaypoints = orderWaypointsByGreedyPath origin_c destination_c waypoints
               in case legsLoop baseSpeed orderedWaypoints ([], 0, 0, origin_c) of
                    (legs_w, totalDistance, totalDuration, prevPoint) \<Rightarrow>
                      (let finalLegDistance = calculateDistance prevPoint destination_c;
                           finalLegDuration = finalLegDistance / baseSpeed;
                           finalSteps = createSimulatedSteps prevPoint destination_c
                                          finalLegDistance finalLegDuration
                       in \<lparr>distance = totalDistance + finalLegDistance,
                           duration = totalDuration + finalLegDuration,
                           legs = legs_w @ [\<lparr>leg_distance = finalLegDistance,
                                             leg_duration = finalLegDuration,
                                             leg_startLocation = prevPoint,
                                             leg_endLocation = destination_c,
                                             steps = finalSteps\<rparr>],
                           memoryWaypoints = orderedWaypoints\<rparr>)))"

section \<open>Alternative routes\<close>

text \<open>
  Sorting with the comparator \<^verbatim>\<open>() => 0.5 - Math.random()\<close> leaves some permutation of
  the array.  \<open>shuffleBy\<close> builds it from the positions of a random draw: each element
  is put into the shuffled rest at the drawn position (at the end when the position is
  beyond it), so every draw gives a permutation and every permutation has a draw.
\<close>

fun shuffleBy :: "nat list \<Rightarrow> 'a list \<Rightarrow> 'a list" where
  "shuffleBy ks [] = []"
| "shuffleBy [] (x # xs) = x # xs"
| "shuffleBy (k # ks) (x # xs) =
     (let rest = shuffleBy ks xs in take k rest @ [x] @ drop k rest)"

definition shuffleAndSelectWaypoints :: "RandomDraw \<Rightarrow> MemoryWaypoint list \<Rightarrow> MemoryWaypoint list" where
  "shuffleAndSelectWaypoints rnd waypoints =
     (if length waypoints \<le> 2 then waypoints
      else (let shuffled = shuffleBy (order rnd) waypoints;
                n = real (length waypoints);
                count = max 1 \<lfloor>fraction rnd * (n * 0.4) + n * 0.5\<rfloor>
            in slice0 count shuffled))"

text \<open>The \<open>i\<close>-th iteration of the loop uses the \<open>i\<close>-th random draw.\<close>

definition generateAlternativeRoutes ::
  "(nat \<Rightarrow> RandomDraw) \<Rightarrow> Coordinates \<Rightarrow> Coordinates \<Rightarrow> MemoryWaypoint list \<Rightarrow> string \<Rightarrow> nat \<Rightarrow> Route list" where
  "generateAlternativeRoutes rnd origin_c destination_c availableWaypoints transportMode numAlternatives =
     (if length availableWaypoints \<le> 1 then []
      else map (\<lambda>i. generateRouteWithWaypoints origin_c destination_c
                       (shuffleAndSelectWaypoints (rnd i) availableWaypoints) transportMode)
             [0..<numAlternatives])"

section \<open>Navigation tracking\<close>

text \<open>
  The first loop of \<^verbatim>\<open>findUpcomingMemory\<close>: the index of the first leg whose cumulated
  step count exceeds the step index, and the initial value 0 when there is none.
\<close>

fun findLegIndex :: "RouteLeg list \<Rightarrow> nat \<Rightarrow> nat \<Rightarrow> nat \<Rightarrow> nat" where
  "findLegIndex [] i stepCount stepIndex = 0"
| "findLegIndex (leg # rest) i stepCount stepIndex =
     (let stepCount' = stepCount + length (steps leg)
      in if stepIndex < stepCount' then i
         else findLegIndex rest (Suc i) stepCount' stepIndex)"

definition findUpcomingMemory :: "Route \<Rightarrow> nat \<Rightarrow> Memory option" where
  "findUpcomingMemory route stepIndex =
     (if length (memoryWaypoints route) = 0 then None
      else (let currentLegIndex = findLegIndex (legs route) 0 0 stepIndex
            in map_option memory
                 (find (\<lambda>waypoint. currentLegIndex \<le> waypointIndex waypoint)
                    (memoryWaypoints route))))"

text \<open>
  The nested loops of \<^verbatim>\<open>findCurrentStep\<close>.  \<open>scanSteps\<close> is the inner loop over the
  steps of one leg: it returns the step count it leaves and the index \<open>j\<close> at which it
  stopped with \<^verbatim>\<open>break\<close>, if it did.  \<open>scanLegs\<close> is the outer loop; \<open>cur\<close> holds
  \<open>currentLegIndex\<close> and \<open>legStepIndex\<close>.  The outer loop ends as soon as the step count
  equals the step index after a leg, whether or not the inner loop had found the step.
\<close>

fun scanSteps :: "RouteStep list \<Rightarrow> nat \<Rightarrow> nat \<Rightarrow> nat \<Rightarrow> nat \<times> nat option" where
  "scanSteps [] j stepCount stepIndex = (stepCount, None)"
| "scanSteps (step # rest) j stepCount stepIndex =
     (if stepCount = stepIndex then (stepCount, Some j)
      else scanSteps rest (Suc j) (Suc stepCount) stepIndex)"

fun scanLegs :: "RouteLeg list \<Rightarrow> nat \<Rightarrow> nat \<Rightarrow> nat \<Rightarrow> nat \<times> nat \<Rightarrow> nat \<times> nat" where
  "scanLegs [] i stepCount stepIndex cur = cur"
| "scanLegs (leg # rest) i stepCount stepIndex cur =
     (case scanSteps (steps leg) 0 stepCount stepIndex of
        (stepCount', found) \<Rightarrow>
          (let cur' = (case found of None \<Rightarrow> cur | Some j \<Rightarrow> (i, j))
           in if stepCount' = stepIndex then cur'
              else scanLegs rest (Suc i) stepCount' stepIndex cur'))"

text \<open>
  \<^verbatim>\<open>route.legs[currentLegIndex]\<close> and \<^verbatim>\<open>currentLeg.steps[legStepIndex]\<close> are
  \<^verbatim>\<open>undefined\<close> out of range, and the property read that follows throws.
\<close>

definition findCurrentStep :: "Route \<Rightarrow> nat \<Rightarrow> Coordinates \<Rightarrow> nav_error + (nat \<times> real)" where
  "findCurrentStep route stepIndex currentLocation =
     (case scanLegs (legs route) 0 0 stepIndex (0, 0) of
        (currentLegIndex, legStepIndex) \<Rightarrow>
          if length (legs route) \<le> currentLegIndex then Inl TypeError
          else (let currentLeg = legs route ! currentLegIndex
                in if length (steps currentLeg) \<le> legStepIndex then Inl TypeError
                   else (let currentStep = steps currentLeg ! legStepIndex;
                             distanceToStepEnd =
                               calculateDistance currentLocation (step_endLocation currentStep)
                         in if distanceToStepEnd < 20
                            then Inr (stepIndex + 1, distanceToStepEnd)
                            else Inr (stepIndex, step_distance currentStep * 0.1))))"

text \<open>The \<^verbatim>\<open>reduce\<close> of \<^verbatim>\<open>navigateToNextStep\<close> that counts the steps of a route.\<close>

definition totalSteps :: "Route \<Rightarrow> nat" where
  "totalSteps route = foldl (\<lambda>total leg. total + length (steps leg)) 0 (legs route)"

section \<open>Operations of the context\<close>

text \<open>
  Every operation takes the navigation state and returns the state that its
  \<^verbatim>\<open>setNavigationState\<close> calls leave, or the exception it ends with.  An operation reads
  the state in two ways: through the constant \<^verbatim>\<open>navigationState\<close> of the render in
  which the operation was created, and through the argument \<^verbatim>\<open>prevState\<close> of a
  functional update, which is the latest state.  Called on its own an operation sees the
  same state in both.  Inside \<^verbatim>\<open>recalculateRoute\<close> they differ: after
  \<^verbatim>\<open>await calculateRoutes(...)\<close> the call \<^verbatim>\<open>startNavigation(0)\<close> is still the function
  of the old render.  The operations with the suffix \<open>_in\<close> therefore take the state of
  the render (\<open>rendered\<close>) and the latest state (\<open>prevState\<close>) apart.
\<close>

definition setOriginAndDestination :: "Coordinates \<Rightarrow> Coordinates \<Rightarrow> NavigationState \<Rightarrow> NavigationState" where
  "setOriginAndDestination origin_c destination_c prevState =
     prevState\<lparr>origin := Some origin_c, destination := Some destination_c,
                currentRoute := None, alternativeRoutes := [], activeNavigation := False\<rparr>"

text \<open>
  \<open>memories\<close> is the list the memory context provides, \<open>rnd\<close> the random draws.  Nothing
  inside the \<^verbatim>\<open>try\<close> block throws, so its \<^verbatim>\<open>catch\<close> branch has no counterpart.
\<close>

definition calculateRoutes_in ::
  "Memory list \<Rightarrow> (nat \<Rightarrow> RandomDraw) \<Rightarrow> NavigationState \<Rightarrow> string \<Rightarrow> real \<Rightarrow> int
    \<Rightarrow> NavigationState \<Rightarrow> nav_error + (NavigationState \<times> Route list)" where
  "calculateRoutes_in memories rnd rendered transportMode maxDetourMinutes maxMemories prevState =
     (case (origin rendered, destination rendered) of
        (Some origin_c, Some destination_c) \<Rightarrow>
          (let potentialWaypoints =
                 findPotentialMemoryWaypoints origin_c destination_c memories maxDetourMinutes;
               sortedWaypoints = sortWaypointsByPriority potentialWaypoints;
               selectedWaypoints = slice0 maxMemories sortedWaypoints;
               primaryRoute =
                 generateRouteWithWaypoints origin_c destination_c selectedWaypoints transportMode;
               alternatives =
                 generateAlternativeRoutes rnd origin_c destination_c sortedWaypoints transportMode 2
           in Inr (prevState\<lparr>currentRoute := Some primaryRoute, alternativeRoutes := alternatives\<rparr>,
                   primaryRoute # alternatives))
      | _ \<Rightarrow> Inl OriginDestinationNotSet)"

definition calculateRoutes ::
  "Memory list \<Rightarrow> (nat \<Rightarrow> RandomDraw) \<Rightarrow> string \<Rightarrow> real \<Rightarrow> int \<Rightarrow> NavigationState
    \<Rightarrow> nav_error + (NavigationState \<times> Route list)" where
  "calculateRoutes memories rnd transportMode maxDetourMinutes maxMemories s =
     calculateRoutes_in memories rnd s transportMode maxDetourMinutes maxMemories s"

text \<open>\<^verbatim>\<open>new Date(t)\<close> drops the fraction of a millisecond.\<close>

definition truncateMs :: "real \<Rightarrow> int" where
  "truncateMs t = (if 0 \<le> t then \<lfloor>t\<rfloor> else \<lceil>t\<rceil>)"

text \<open>\<open>now\<close> is the time stamp that \<^verbatim>\<open>new Date()\<close> reads.\<close>

definition startNavigation_in :: "NavigationState \<Rightarrow> int \<Rightarrow> nat \<Rightarrow> NavigationState \<Rightarrow> nav_error + NavigationState" where
  "startNavigation_in rendered now routeIndex prevState =
     (let routes = (case currentRoute rendered of None \<Rightarrow> [] | Some r \<Rightarrow> [r])
                   @ alternativeRoutes rendered
      in if length routes \<le> routeIndex then Inl InvalidRouteIndex
         else (let selectedRoute = routes ! routeIndex;
                   eta = truncateMs (real_of_int now + duration selectedRoute * 1000)
               in Inr (prevState\<lparr>currentRoute := Some selectedRoute,
                                  activeNavigation := True,
                                  currentStepIndex := 0,
                                  navigationStartTime := Some now,
                                  estimatedArrivalTime := Some eta,
                                  travelledDistance := 0,
                                  upcomingMemory := findUpcomingMemory selectedRoute 0\<rparr>)))"

definition startNavigation :: "int \<Rightarrow> nat \<Rightarrow> NavigationState \<Rightarrow> nav_error + NavigationState" where
  "startNavigation now routeIndex s = startNavigation_in s now routeIndex s"

definition stopNavigation :: "NavigationState \<Rightarrow> nav_error + NavigationState" where
  "stopNavigation prevState =
     Inr (prevState\<lparr>activeNavigation := False,
                     currentStepIndex := 0,
                     navigationStartTime := None,
                     estimatedArrivalTime := None,
                     upcomingMemory := None,
                     distanceToNextMemory := None,
                     travelledDistance := 0\<rparr>)"

definition navigateToNextStep :: "NavigationState \<Rightarrow> nav_error + NavigationState" where
  "navigateToNextStep s =
     (case currentRoute s of
        None \<Rightarrow> Inr s
      | Some route \<Rightarrow>
          if \<not> activeNavigation s then Inr s
          else (let newStepIndex = currentStepIndex s + 1
                in if totalSteps route \<le> newStepIndex then stopNavigation s
                   else Inr (s\<lparr>currentStepIndex := newStepIndex,
                                upcomingMemory := findUpcomingMemory route newStepIndex\<rparr>)))"

text \<open>
  \<^verbatim>\<open>updateCurrentLocation\<close> reads the property \<^verbatim>\<open>memory\<close> of what
  \<^verbatim>\<open>findUpcomingMemory\<close> returned.  That is a \<^verbatim>\<open>Memory\<close>, which has no such property,
  so the read gives \<^verbatim>\<open>undefined\<close>.
\<close>

definition memoryProperty :: "Memory \<Rightarrow> Memory option" where
  "memoryProperty m = None"

definition updateCurrentLocation :: "Coordinates \<Rightarrow> NavigationState \<Rightarrow> nav_error + NavigationState" where
  "updateCurrentLocation location_c s =
     (case currentRoute s of
        None \<Rightarrow> Inr s
      | Some route \<Rightarrow>
          if \<not> activeNavigation s then Inr s
          else (case findCurrentStep route (currentStepIndex s) location_c of
                  Inl e \<Rightarrow> Inl e
                | Inr (newStepIndex, distanceTravelled) \<Rightarrow>
                    (let upcoming = findUpcomingMemory route newStepIndex;
                         upcomingInner = (case upcoming of None \<Rightarrow> None | Some u \<Rightarrow> memoryProperty u);
                         distanceToNext =
                           (case upcomingInner of
                              None \<Rightarrow> None
                            | Some m \<Rightarrow> Some (calculateDistance location_c (memoryCoord m)))
                     in Inr (s\<lparr>currentStepIndex := newStepIndex,
                                upcomingMemory := upcomingInner,
                                distanceToNextMemory := distanceToNext,
                                travelledDistance := travelledDistance s + distanceTravelled\<rparr>))))"

text \<open>
  \<open>userProfile\<close> comes from the user context; \<open>geolocation\<close> says whether
  \<^verbatim>\<open>navigator.geolocation\<close> exists (the call on it throws otherwise, inside the
  \<^verbatim>\<open>try\<close> block).  The position that \<^verbatim>\<open>getCurrentPosition\<close> is asked for is stored in
  \<^verbatim>\<open>currentLocation\<close> and never read, so it has no counterpart here.
  \<^verbatim>\<open>calculateRoutes\<close> is called with two arguments; \<^verbatim>\<open>maxMemories\<close> is its default 5.
\<close>

definition recalculateRoute ::
  "Memory list \<Rightarrow> (nat \<Rightarrow> RandomDraw) \<Rightarrow> UserProfile option \<Rightarrow> bool \<Rightarrow> int \<Rightarrow> NavigationState
    \<Rightarrow> nav_error + NavigationState" where
  "recalculateRoute memories rnd userProfile geolocation now s =
     (if \<not> activeNavigation s \<or> currentRoute s = None \<or> origin s = None \<or> destination s = None
      then Inr s
      else if \<not> geolocation then Inl FailedToRecalculateRoute
      else (let maxDetourMinutes =
                  (case userProfile of
                     None \<Rightarrow> 10
                   | Some u \<Rightarrow> (if maxDetourTime (navigationPreferences u) = 0 then 10
                                else maxDetourTime (navigationPreferences u)));
                transportMode =
                  (case userProfile of
                     None \<Rightarrow> ''driving''
                   | Some u \<Rightarrow> (if transportationMode (navigationPreferences u) = [] then ''driving''
                                else transportationMode (navigationPreferences u)))
            in case calculateRoutes_in memories rnd s transportMode maxDetourMinutes 5 s of
                 Inl e \<Rightarrow> Inl FailedToRecalculateRoute
               | Inr (s1, routes) \<Rightarrow>
                   (case startNavigation_in s now 0 s1 of
                      Inl e \<Rightarrow> Inl FailedToRecalculateRoute
                    | Inr s2 \<Rightarrow> Inr s2)))"

text \<open>
  The condition the claims call a valid step index: the index of the current step is
  below the number of steps of the current route.
\<close>

definition stepIndexValid :: "NavigationState \<Rightarrow> bool" where
  "stepIndexValid s =
     (case currentRoute s of None \<Rightarrow> False | Some route \<Rightarrow> currentStepIndex s < totalSteps route)"

section \<open>Example inputs\<close>

text \<open>
  Three points between which the haversine formula has a closed value: a point on the
  equator, the point opposite to it, and the north pole.
\<close>

definition equatorPoint :: Coordinates where
  "equatorPoint = \<lparr>latitude = 0, longitude = 0\<rparr>"

definition oppositePoint :: Coordinates where
  "oppositePoint = \<lparr>latitude = 0, longitude = 180\<rparr>"

definition northPole :: Coordinates where
  "northPole = \<lparr>latitude = 90, longitude = 0\<rparr>"

definition memoryAt :: "string \<Rightarrow> Coordinates \<Rightarrow> real \<Rightarrow> Memory" where
  "memoryAt ident place imp =
     \<lparr>id_memory = ident, userId = ''user'', title = ''t'', description = ''d'', date = 0,
      location = \<lparr>latitude = latitude place, longitude = longitude place, address = ''a''\<rparr>,
      tags = [], photos = [], isPrivate = False, importance = imp,
      createdAt = 0, updatedAt = 0\<rparr>"

definition noShuffle :: "nat \<Rightarrow> RandomDraw" where
  "noShuffle i = \<lparr>order = [], fraction = 0\<rparr>"

text \<open>The direct route from the equator to the pole, and a session started on it.\<close>

definition poleRoute :: Route where
  "poleRoute = generateRouteWithWaypoints equatorPoint northPole [] ''driving''"

definition poleRoutePlanned :: NavigationState where
  "poleRoutePlanned =
     (setOriginAndDestination equatorPoint northPole defaultNavigationState)
       \<lparr>currentRoute := Some poleRoute\<rparr>"

definition poleSession :: NavigationState where
  "poleSession =
     poleRoutePlanned
       \<lparr>activeNavigation := True, navigationStartTime := Some 0,
        estimatedArrivalTime := Some (truncateMs (duration poleRoute * 1000))\<rparr>"

text \<open>
  Candidate memories for a trip from the equator to the pole: one at the start of the
  trip, one on the far side of the earth, and the waypoints the selector makes of them.
\<close>

definition nearWaypoint :: MemoryWaypoint where
  "nearWaypoint =
     \<lparr>memory = memoryAt ''near'' equatorPoint 5, distanceFromRoute = 0, detourTime = 0,
      waypointIndex = 0\<rparr>"

definition farWaypoint :: MemoryWaypoint where
  "farWaypoint =
     \<lparr>memory = memoryAt ''far'' oppositePoint 5, distanceFromRoute = 6371000 * pi,
      detourTime = 38226 * pi / 5, waypointIndex = 0\<rparr>"

text \<open>Two waypoints of equal score that differ in the id of their memory.\<close>

definition tieA :: MemoryWaypoint where
  "tieA =
     \<lparr>memory = memoryAt ''a'' equatorPoint 5, distanceFromRoute = 0, detourTime = 0,
      waypointIndex = 0\<rparr>"

definition tieB :: MemoryWaypoint where
  "tieB =
     \<lparr>memory = memoryAt ''b'' equatorPoint 5, distanceFromRoute = 0, detourTime = 0,
      waypointIndex = 1\<rparr>"

section \<open>Facts about distance and speed\<close>

lemma calculateDistance_same: "calculateDistance a a = 0"
  by (simp add: calculateDistance_def atan2_def)

lemma dist_equator_opposite: "calculateDistance equatorPoint oppositePoint = 6371000 * pi"
  by (simp add: calculateDistance_def atan2_def equatorPoint_def oppositePoint_def)

lemma dist_opposite_pole: "calculateDistance oppositePoint northPole = 6371000 * pi / 2"
  by (simp add: calculateDistance_def atan2_def northPole_def oppositePoint_def sin_45
      real_sqrt_divide arctan_one)

lemma dist_equator_pole: "calculateDistance equatorPoint northPole = 6371000 * pi / 2"
  by (simp add: calculateDistance_def atan2_def northPole_def equatorPoint_def sin_45
      real_sqrt_divide arctan_one)

lemma speed_driving: "getBaseSpeedForMode ''driving'' = 13.9"
  unfolding getBaseSpeedForMode_def by code_simp

lemma speed_walking: "getBaseSpeedForMode ''walking'' = 1.4"
  unfolding getBaseSpeedForMode_def by code_simp

lemma speed_bicycling: "getBaseSpeedForMode ''bicycling'' = 4.2"
  unfolding getBaseSpeedForMode_def by code_simp

lemma speed_transit: "getBaseSpeedForMode ''transit'' = 8.3"
  unfolding getBaseSpeedForMode_def by code_simp

lemma memoryCoord_memoryAt: "memoryCoord (memoryAt i p imp) = p"
  by (simp add: memoryCoord_def memoryAt_def)

lemma importance_memoryAt: "importance (memoryAt i p imp) = imp"
  by (simp add: memoryAt_def)

section \<open>Facts about the operations\<close>

text \<open>
  A recalculation that passes its guard returns a restarted session.  Its route is the
  route of the state it was called in: \<^verbatim>\<open>startNavigation(0)\<close> picks it from the
  state of the old render.
\<close>

lemma recalculateRoute_result:
  assumes "activeNavigation s" and "currentRoute s = Some r"
    and "origin s = Some o_c" and "destination s = Some d_c"
  shows "\<exists>s'. recalculateRoute ms rnd up True now s = Inr s'
           \<and> activeNavigation s' \<and> currentStepIndex s' = 0 \<and> travelledDistance s' = 0
           \<and> currentRoute s' = Some r \<and> navigationStartTime s' = Some now
           \<and> origin s' = origin s \<and> destination s' = destination s"
  using assms
  by (simp add: recalculateRoute_def calculateRoutes_in_def startNavigation_in_def Let_def)

lemma memoryWaypoints_poleRoute: "memoryWaypoints poleRoute = []"
  by (simp add: poleRoute_def generateRouteWithWaypoints_def Let_def)

lemma recalculate_on_pole_session:
  "recalculateRoute [] rnd None True 0 (poleSession\<lparr>travelledDistance := 1000\<rparr>) = Inr poleSession"
  by (simp add: recalculateRoute_def calculateRoutes_in_def startNavigation_in_def Let_def
      poleSession_def poleRoutePlanned_def setOriginAndDestination_def defaultNavigationState_def
      findPotentialMemoryWaypoints_def sortWaypointsByPriority_def slice0_def
      generateAlternativeRoutes_def findUpcomingMemory_def memoryWaypoints_poleRoute)

lemma idle_ops:
  assumes "\<not> activeNavigation s"
  shows "stopNavigation s =
           Inr (s\<lparr>currentStepIndex := 0, navigationStartTime := None,
                  estimatedArrivalTime := None, upcomingMemory := None,
                  distanceToNextMemory := None, travelledDistance := 0\<rparr>)
         \<and> navigateToNextStep s = Inr s
         \<and> updateCurrentLocation loc s = Inr s
         \<and> recalculateRoute ms rnd up geo now s = Inr s"
  using assms
  by (cases s) (simp add: stopNavigation_def navigateToNextStep_def updateCurrentLocation_def
      recalculateRoute_def split: option.splits)

lemma idle_default:
  "stopNavigation defaultNavigationState = Inr defaultNavigationState
   \<and> navigateToNextStep defaultNavigationState = Inr defaultNavigationState
   \<and> updateCurrentLocation equatorPoint defaultNavigationState = Inr defaultNavigationState"
  by (simp add: stopNavigation_def navigateToNextStep_def updateCurrentLocation_def
      defaultNavigationState_def)

lemma advance_keeps_index_valid:
  assumes "navigateToNextStep s = Inr s'" and "activeNavigation s'" and "stepIndexValid s"
  shows "stepIndexValid s'"
  using assms
  by (auto simp: navigateToNextStep_def stopNavigation_def stepIndexValid_def Let_def
      split: option.splits if_splits)

section \<open>Facts about sequencing and shuffling\<close>

lemma findClosest_less:
  "k < i + length ws \<Longrightarrow> findClosest p ws i k cd < i + length ws"
proof (induction ws arbitrary: i k cd)
  case Nil
  then show ?case by simp
next
  case (Cons w ws)
  have a: "findClosest p ws (Suc i) i cd' < Suc i + length ws" for cd'
    by (rule Cons.IH) simp
  have b: "findClosest p ws (Suc i) k cd < Suc i + length ws"
    using Cons.prems by (intro Cons.IH) simp
  from a b show ?case
    by (simp add: Let_def)
qed

lemma findClosest_in_range:
  "unvisited \<noteq> [] \<Longrightarrow> findClosest p unvisited 0 0 None < length unvisited"
  using findClosest_less [of 0 0 unvisited p None] by simp

lemma mset_spliceOut:
  "k < length xs \<Longrightarrow> add_mset (xs ! k) (mset (spliceOut k xs)) = mset xs"
proof -
  assume k: "k < length xs"
  then have "xs = take k xs @ xs ! k # drop (Suc k) xs"
    by (simp add: id_take_nth_drop)
  then have "mset xs = mset (take k xs @ xs ! k # drop (Suc k) xs)"
    by simp
  then show ?thesis
    by (simp add: spliceOut_def)
qed

lemma mset_greedyLoop:
  "mset (greedyLoop p unvisited result) = mset result + mset unvisited"
proof (induction p unvisited result rule: greedyLoop.induct)
  case (1 p unvisited result)
  show ?case
  proof (cases "unvisited = []")
    case True
    then show ?thesis by (simp add: greedyLoop.simps)
  next
    case False
    let ?k = "findClosest p unvisited 0 0 None"
    have k: "?k < length unvisited"
      using False by (rule findClosest_in_range)
    have "mset (greedyLoop p unvisited result)
            = mset (result @ [unvisited ! ?k]) + mset (spliceOut ?k unvisited)"
      using False "1.IH" [OF False refl refl] by (subst greedyLoop.simps) (simp add: Let_def)
    also have "\<dots> = mset result + add_mset (unvisited ! ?k) (mset (spliceOut ?k unvisited))"
      by simp
    also have "\<dots> = mset result + mset unvisited"
      using k by (simp only: mset_spliceOut)
    finally show ?thesis .
  qed
qed

lemma map_reindex:
  "map f (map (\<lambda>(index, waypoint). waypoint\<lparr>waypointIndex := index\<rparr>) (List.enumerate n xs)) = map f xs"
  if "\<And>w k. f (w\<lparr>waypointIndex := k\<rparr>) = f w"
  using that by (induction xs arbitrary: n) simp_all

lemma waypointIndex_reindex:
  "map waypointIndex (map (\<lambda>(index, waypoint). waypoint\<lparr>waypointIndex := index\<rparr>) (List.enumerate n xs))
     = [n..<n + length xs]"
  by (induction xs arbitrary: n) (simp_all add: upt_rec)

lemma order_fields:
  assumes "\<And>w k. f (w\<lparr>waypointIndex := k\<rparr>) = f w"
  shows "mset (map f (orderWaypointsByGreedyPath s_c e_c ws)) = mset (map f ws)"
proof (cases "length ws \<le> 1")
  case True
  then show ?thesis by (simp add: orderWaypointsByGreedyPath_def)
next
  case False
  have "map f (orderWaypointsByGreedyPath s_c e_c ws) = map f (greedyLoop s_c ws [])"
    using False assms by (simp add: orderWaypointsByGreedyPath_def Let_def map_reindex del: map_map)
  then have "mset (map f (orderWaypointsByGreedyPath s_c e_c ws)) = image_mset f (mset (greedyLoop s_c ws []))"
    by simp
  then show ?thesis
    by (simp add: mset_greedyLoop)
qed

lemma order_indices:
  "2 \<le> length ws \<Longrightarrow>
     map waypointIndex (orderWaypointsByGreedyPath s_c e_c ws) = [0..<length ws]"
proof -
  assume n: "2 \<le> length ws"
  have "length (greedyLoop s_c ws []) = length ws"
    using mset_greedyLoop [of s_c ws "[]"] by (metis add.left_neutral mset.simps(1) size_mset)
  with n show ?thesis
    by (simp add: orderWaypointsByGreedyPath_def Let_def waypointIndex_reindex del: map_map)
qed

lemma order_single: "orderWaypointsByGreedyPath s_c e_c [w] = [w]"
  by (simp add: orderWaypointsByGreedyPath_def)

lemma mset_shuffleBy: "mset (shuffleBy ks xs) = mset xs"
proof (induction ks xs rule: shuffleBy.induct)
  case (3 k ks x xs)
  have "mset (take k (shuffleBy ks xs)) + mset (drop k (shuffleBy ks xs)) = mset (shuffleBy ks xs)"
    by (metis append_take_drop_id mset_append)
  with 3 show ?case by (simp add: Let_def)
qed simp_all

lemma set_slice0: "set (slice0 n xs) \<subseteq> set xs"
  by (simp add: slice0_def set_take_subset)

lemma set_shuffleAndSelect: "set (shuffleAndSelectWaypoints rnd ws) \<subseteq> set ws"
proof -
  have "set (shuffleBy (order rnd) ws) = set ws"
    by (metis mset_shuffleBy set_mset_mset)
  then show ?thesis
    using set_slice0 [of _ "shuffleBy (order rnd) ws"]
    by (auto simp: shuffleAndSelectWaypoints_def Let_def)
qed

section \<open>Facts about route assembly\<close>

lemma legsLoop_totals:
  "legsLoop sp ws (L, td, tdur, p) = (L', td', tdur', p') \<Longrightarrow>
     sum_list (map leg_distance L') = sum_list (map leg_distance L) + (td' - td)
     \<and> tdur' = tdur + (td' - td) / sp"
proof (induction ws arbitrary: L td tdur p)
  case Nil
  then show ?case by simp
next
  case (Cons w ws)
  from Cons.prems show ?case
    by (auto simp: Let_def diff_divide_distrib add_divide_distrib dest!: Cons.IH)
qed

lemma memoryWaypoints_route:
  "memoryWaypoints (generateRouteWithWaypoints o_c d_c ws mode)
     = (if ws = [] then [] else orderWaypointsByGreedyPath o_c d_c ws)"
  by (simp add: generateRouteWithWaypoints_def Let_def split: prod.splits)

lemma detourTime_order:
  "w \<in> set (orderWaypointsByGreedyPath s_c e_c ws) \<Longrightarrow> \<exists>v \<in> set ws. detourTime w = detourTime v"
proof -
  assume "w \<in> set (orderWaypointsByGreedyPath s_c e_c ws)"
  then have "detourTime w \<in> set (map detourTime (orderWaypointsByGreedyPath s_c e_c ws))"
    by simp
  also have "set (map detourTime (orderWaypointsByGreedyPath s_c e_c ws)) = set (map detourTime ws)"
  proof -
    have "mset (map detourTime (orderWaypointsByGreedyPath s_c e_c ws)) = mset (map detourTime ws)"
      by (rule order_fields) simp
    then show ?thesis
      by (rule mset_eq_setD)
  qed
  finally show ?thesis by auto
qed

lemma route_waypoints_bounded:
  assumes "\<And>v. v \<in> set ws \<Longrightarrow> detourTime v \<le> b"
    and "w \<in> set (memoryWaypoints (generateRouteWithWaypoints o_c d_c ws mode))"
  shows "detourTime w \<le> b"
proof -
  from assms(2) have "w \<in> set (orderWaypointsByGreedyPath o_c d_c ws)"
    by (simp add: memoryWaypoints_route split: if_splits)
  then obtain v where "v \<in> set ws" "detourTime w = detourTime v"
    using detourTime_order by blast
  with assms(1) show ?thesis by simp
qed

lemma potential_within_budget:
  "w \<in> set (findPotentialMemoryWaypoints o_c d_c ms maxD) \<Longrightarrow> detourTime w \<le> maxD"
  by (simp add: findPotentialMemoryWaypoints_def Let_def)

section \<open>Evaluation on the example inputs\<close>

text \<open>
  The example states are states the operations produce: \<open>poleRoutePlanned\<close> is what
  \<^verbatim>\<open>setOriginAndDestination\<close> and \<^verbatim>\<open>calculateRoutes\<close> leave when there are no
  memories (\<open>planned_from_operations\<close>), and \<open>poleSession\<close> is what
  \<^verbatim>\<open>startNavigation(0)\<close> makes of it (\<open>session_from_operations\<close>).
\<close>

lemma far_candidate:
  "findPotentialMemoryWaypoints equatorPoint northPole [memoryAt ''far'' oppositePoint 5] 40000
     = [farWaypoint]"
proof -
  have "38226 * pi / 5 \<le> 40000" using pi_less_4 by simp
  then show ?thesis
    by (simp add: findPotentialMemoryWaypoints_def detourWaypoint_def Let_def enumerate_simps
        memoryCoord_memoryAt dist_equator_opposite dist_opposite_pole dist_equator_pole
        farWaypoint_def)
qed

lemma near_candidate:
  "findPotentialMemoryWaypoints equatorPoint northPole [memoryAt ''near'' equatorPoint 5] 10
     = [nearWaypoint]"
  by (simp add: findPotentialMemoryWaypoints_def detourWaypoint_def Let_def enumerate_simps
        memoryCoord_memoryAt calculateDistance_same nearWaypoint_def)

lemma two_candidates:
  "findPotentialMemoryWaypoints equatorPoint northPole
      [memoryAt ''low'' equatorPoint 1, memoryAt ''high'' equatorPoint 5] 10
     = [\<lparr>memory = memoryAt ''low'' equatorPoint 1, distanceFromRoute = 0,
         detourTime = 0, waypointIndex = 0\<rparr>,
        \<lparr>memory = memoryAt ''high'' equatorPoint 5, distanceFromRoute = 0,
         detourTime = 0, waypointIndex = 1\<rparr>]"
  by (simp add: findPotentialMemoryWaypoints_def detourWaypoint_def Let_def enumerate_simps
        memoryCoord_memoryAt calculateDistance_same)

lemma sort_two:
  "sortWaypointsByPriority
      [\<lparr>memory = memoryAt ''low'' equatorPoint 1, distanceFromRoute = 0,
         detourTime = 0, waypointIndex = 0\<rparr>,
        \<lparr>memory = memoryAt ''high'' equatorPoint 5, distanceFromRoute = 0,
         detourTime = 0, waypointIndex = 1\<rparr>]
   = [\<lparr>memory = memoryAt ''high'' equatorPoint 5, distanceFromRoute = 0,
         detourTime = 0, waypointIndex = 1\<rparr>,
      \<lparr>memory = memoryAt ''low'' equatorPoint 1, distanceFromRoute = 0,
         detourTime = 0, waypointIndex = 0\<rparr>]"
  by (simp add: sortWaypointsByPriority_def priorityScore_def importance_memoryAt)

lemma poleRoute_eq:
  "poleRoute = \<lparr>distance = 6371000 * pi / 2, duration = 6371000 * pi / 2 / 13.9,
     legs = [\<lparr>leg_distance = 6371000 * pi / 2, leg_duration = 6371000 * pi / 2 / 13.9,
              leg_startLocation = equatorPoint, leg_endLocation = northPole,
              steps = [\<lparr>step_distance = 6371000 * pi / 2, step_duration = 6371000 * pi / 2 / 13.9,
                        step_startLocation = equatorPoint, step_endLocation = northPole,
                        instruction = ''Head to destination'', maneuver = None\<rparr>]\<rparr>],
     memoryWaypoints = []\<rparr>"
  by (simp add: poleRoute_def generateRouteWithWaypoints_def Let_def dist_equator_pole speed_driving)

lemma totalSteps_poleRoute: "totalSteps poleRoute = 1"
  by (simp add: poleRoute_eq totalSteps_def)

lemma planned_from_operations:
  "calculateRoutes [] rnd ''driving'' 10 5
      (setOriginAndDestination equatorPoint northPole defaultNavigationState)
     = Inr (poleRoutePlanned, [poleRoute])"
  by (simp add: calculateRoutes_def calculateRoutes_in_def setOriginAndDestination_def
      findPotentialMemoryWaypoints_def sortWaypointsByPriority_def slice0_def
      generateAlternativeRoutes_def poleRoutePlanned_def poleRoute_def Let_def)

lemma session_from_operations: "startNavigation 0 0 poleRoutePlanned = Inr poleSession"
  by (simp add: startNavigation_def startNavigation_in_def poleRoutePlanned_def poleSession_def
      setOriginAndDestination_def defaultNavigationState_def Let_def findUpcomingMemory_def
      poleRoute_eq)

lemma update_at_pole:
  "updateCurrentLocation northPole poleSession = Inr (poleSession\<lparr>currentStepIndex := 1\<rparr>)"
  by (simp add: updateCurrentLocation_def poleSession_def poleRoutePlanned_def
      setOriginAndDestination_def defaultNavigationState_def findCurrentStep_def
      poleRoute_eq calculateDistance_same findUpcomingMemory_def Let_def)

lemma advance_at_pole:
  "navigateToNextStep poleSession = Inr (poleRoutePlanned\<lparr>upcomingMemory := None\<rparr>)"
  by (simp add: navigateToNextStep_def stopNavigation_def poleSession_def poleRoutePlanned_def
      setOriginAndDestination_def defaultNavigationState_def totalSteps_poleRoute Let_def)

section \<open>The claims\<close>

subsection \<open>Step index of an active session\<close>

text \<open>
  Claim C1: while a session is active, \<open>currentStepIndex\<close> is a valid index into the
  steps of the route, and a location update at the end of the final step ends the active
  session instead of leaving it active with an index out of range.

  The advance operation keeps the index valid (\<open>advance_keeps_index_valid\<close>) and ends
  the session at the final step (\<open>advance_at_pole\<close>).  The location update does not:
  the session on the direct route from the equator to the pole is active on step 0, the
  only step of the route; an update with the coordinate of the pole, the end of that
  step, returns an active session with step index 1.
\<close>

theorem location_update_at_final_step_stays_active:
  "activeNavigation poleSession
   \<and> stepIndexValid poleSession
   \<and> currentStepIndex poleSession + 1 = totalSteps poleRoute
   \<and> calculateDistance northPole northPole < 20
   \<and> updateCurrentLocation northPole poleSession = Inr (poleSession\<lparr>currentStepIndex := 1\<rparr>)
   \<and> activeNavigation (poleSession\<lparr>currentStepIndex := 1\<rparr>)
   \<and> \<not> stepIndexValid (poleSession\<lparr>currentStepIndex := 1\<rparr>)"
proof -
  have "currentRoute poleSession = Some poleRoute" "currentStepIndex poleSession = 0"
    "activeNavigation poleSession"
    by (simp_all add: poleSession_def poleRoutePlanned_def setOriginAndDestination_def
        defaultNavigationState_def)
  then show ?thesis
    by (simp add: stepIndexValid_def totalSteps_poleRoute calculateDistance_same update_at_pole)
qed

subsection \<open>Operations outside an active session\<close>

text \<open>
  Claim C2, as stated: an operation invoked in a state that is not its source state, such
  as stop or a location update while no navigation is active, fails with an error and
  never returns silently.  It does not hold: in the initial state stop, advance and
  location update all return, and they return the state they were given.
\<close>

theorem idle_operations_return_counterexample:
  "\<not> activeNavigation defaultNavigationState
   \<and> stopNavigation defaultNavigationState = Inr defaultNavigationState
   \<and> navigateToNextStep defaultNavigationState = Inr defaultNavigationState
   \<and> updateCurrentLocation equatorPoint defaultNavigationState = Inr defaultNavigationState"
  using idle_default by (simp add: defaultNavigationState_def)

text \<open>
  Claim C2, amended: in every state in which no navigation is active, stop, advance,
  location update and recalculation return without an error.  Stop resets the progress
  fields; the other three leave the state as it is.
\<close>

theorem idle_operations_do_not_fail:
  "\<not> activeNavigation s \<Longrightarrow>
     stopNavigation s =
       Inr (s\<lparr>currentStepIndex := 0, navigationStartTime := None,
              estimatedArrivalTime := None, upcomingMemory := None,
              distanceToNextMemory := None, travelledDistance := 0\<rparr>)
     \<and> navigateToNextStep s = Inr s
     \<and> updateCurrentLocation loc s = Inr s
     \<and> recalculateRoute ms rnd up geo now s = Inr s"
  by (rule idle_ops)

theorem idle_operations_do_not_fail_witness:
  "\<not> activeNavigation poleRoutePlanned
   \<and> stopNavigation poleRoutePlanned = Inr poleRoutePlanned
   \<and> navigateToNextStep poleRoutePlanned = Inr poleRoutePlanned
   \<and> updateCurrentLocation northPole poleRoutePlanned = Inr poleRoutePlanned
   \<and> recalculateRoute [] noShuffle None True 0 poleRoutePlanned = Inr poleRoutePlanned"
proof -
  have h: "\<not> activeNavigation poleRoutePlanned"
    by (simp add: poleRoutePlanned_def setOriginAndDestination_def)
  have "poleRoutePlanned\<lparr>currentStepIndex := 0, navigationStartTime := None,
          estimatedArrivalTime := None, upcomingMemory := None,
          distanceToNextMemory := None, travelledDistance := 0\<rparr> = poleRoutePlanned"
    by (simp add: poleRoutePlanned_def setOriginAndDestination_def defaultNavigationState_def)
  with idle_operations_do_not_fail [OF h, of northPole "[]" noShuffle None True 0] h
  show ?thesis by simp
qed

subsection \<open>Recalculation\<close>

text \<open>
  Claim C3, as stated: recalculation restarts the session on the recomputed route and
  carries the travelled distance forward.  It does not hold: a session that has
  travelled 1000 metres comes back from recalculation with travelled distance 0.
\<close>

theorem recalculate_resets_travelled_counterexample:
  "activeNavigation (poleSession\<lparr>travelledDistance := 1000\<rparr>)
   \<and> travelledDistance (poleSession\<lparr>travelledDistance := 1000\<rparr>) = 1000
   \<and> recalculateRoute [] noShuffle None True 0 (poleSession\<lparr>travelledDistance := 1000\<rparr>)
       = Inr poleSession
   \<and> travelledDistance poleSession = 0"
  by (simp add: recalculate_on_pole_session)
    (simp add: poleSession_def poleRoutePlanned_def setOriginAndDestination_def
      defaultNavigationState_def)

text \<open>
  Claim C3, amended: for every active session with a route, an origin and a destination,
  recalculation succeeds and returns a restarted session: active, with step index 0, the
  current time as start time and travelled distance 0.  The distance travelled before is
  not carried forward.
\<close>

theorem recalculate_restarts_from_zero:
  "activeNavigation s \<Longrightarrow> currentRoute s \<noteq> None \<Longrightarrow> origin s \<noteq> None \<Longrightarrow> destination s \<noteq> None \<Longrightarrow>
     \<exists>s'. recalculateRoute ms rnd up True now s = Inr s'
          \<and> activeNavigation s' \<and> currentStepIndex s' = 0 \<and> travelledDistance s' = 0
          \<and> navigationStartTime s' = Some now"
proof -
  assume a: "activeNavigation s" and "currentRoute s \<noteq> None" "origin s \<noteq> None" "destination s \<noteq> None"
  then obtain r o_c d_c where "currentRoute s = Some r" "origin s = Some o_c" "destination s = Some d_c"
    by auto
  from recalculateRoute_result [OF a this, of ms rnd up now] show ?thesis
    by blast
qed

theorem recalculate_restarts_from_zero_witness:
  "activeNavigation (poleSession\<lparr>travelledDistance := 1000\<rparr>)
   \<and> currentRoute (poleSession\<lparr>travelledDistance := 1000\<rparr>) \<noteq> None
   \<and> origin (poleSession\<lparr>travelledDistance := 1000\<rparr>) \<noteq> None
   \<and> destination (poleSession\<lparr>travelledDistance := 1000\<rparr>) \<noteq> None
   \<and> (\<exists>s'. recalculateRoute [] noShuffle None True 7 (poleSession\<lparr>travelledDistance := 1000\<rparr>) = Inr s'
          \<and> activeNavigation s' \<and> currentStepIndex s' = 0 \<and> travelledDistance s' = 0
          \<and> navigationStartTime s' = Some 7)"
proof -
  have h: "activeNavigation (poleSession\<lparr>travelledDistance := 1000\<rparr>)"
    "currentRoute (poleSession\<lparr>travelledDistance := 1000\<rparr>) \<noteq> None"
    "origin (poleSession\<lparr>travelledDistance := 1000\<rparr>) \<noteq> None"
    "destination (poleSession\<lparr>travelledDistance := 1000\<rparr>) \<noteq> None"
    by (simp_all add: poleSession_def poleRoutePlanned_def setOriginAndDestination_def)
  from recalculate_restarts_from_zero [OF h, of "[]" noShuffle None 7] h show ?thesis
    by simp
qed

subsection \<open>The detour budget\<close>

text \<open>
  Claim C4: whatever the origin, the destination, the candidate memories and the budget
  \<open>maxDetourMinutes\<close>, no waypoint that the selector returns has a detour time above the
  budget, and none does on any route that \<open>calculateRoutes\<close> computes, the primary route
  and the alternatives under every random draw.
\<close>

theorem selected_waypoints_within_budget:
  "(w \<in> set (slice0 maxMemories (sortWaypointsByPriority
        (findPotentialMemoryWaypoints o_c d_c ms maxDetourMinutes)))
      \<longrightarrow> detourTime w \<le> maxDetourMinutes)
   \<and> (calculateRoutes ms rnd mode maxDetourMinutes maxMemories s = Inr (s', routes)
        \<and> route \<in> set routes \<and> v \<in> set (memoryWaypoints route)
      \<longrightarrow> detourTime v \<le> maxDetourMinutes)"
proof (intro conjI impI)
  assume "w \<in> set (slice0 maxMemories (sortWaypointsByPriority
        (findPotentialMemoryWaypoints o_c d_c ms maxDetourMinutes)))"
  then have "w \<in> set (findPotentialMemoryWaypoints o_c d_c ms maxDetourMinutes)"
    using set_slice0 by (fastforce simp: sortWaypointsByPriority_def)
  then show "detourTime w \<le> maxDetourMinutes"
    by (rule potential_within_budget)
next
  assume a: "calculateRoutes ms rnd mode maxDetourMinutes maxMemories s = Inr (s', routes)
        \<and> route \<in> set routes \<and> v \<in> set (memoryWaypoints route)"
  then obtain og dn where od: "origin s = Some og" "destination s = Some dn"
    by (auto simp: calculateRoutes_def calculateRoutes_in_def split: option.splits)
  let ?sorted = "sortWaypointsByPriority (findPotentialMemoryWaypoints og dn ms maxDetourMinutes)"
  have sorted_ok: "x \<in> set ?sorted \<Longrightarrow> detourTime x \<le> maxDetourMinutes" for x
    by (simp add: sortWaypointsByPriority_def potential_within_budget)
  from a od have "route = generateRouteWithWaypoints og dn (slice0 maxMemories ?sorted) mode
      \<or> route \<in> set (generateAlternativeRoutes rnd og dn ?sorted mode 2)"
    by (auto simp: calculateRoutes_def calculateRoutes_in_def Let_def)
  then have "\<exists>sel. set sel \<subseteq> set ?sorted \<and> route = generateRouteWithWaypoints og dn sel mode"
  proof
    assume "route = generateRouteWithWaypoints og dn (slice0 maxMemories ?sorted) mode"
    then show ?thesis
      using set_slice0 [of maxMemories ?sorted] by blast
  next
    assume "route \<in> set (generateAlternativeRoutes rnd og dn ?sorted mode 2)"
    then obtain i where "route = generateRouteWithWaypoints og dn
        (shuffleAndSelectWaypoints (rnd i) ?sorted) mode"
      by (auto simp: generateAlternativeRoutes_def split: if_splits)
    then show ?thesis
      using set_shuffleAndSelect [of "rnd i" ?sorted] by blast
  qed
  then obtain sel where sel: "set sel \<subseteq> set ?sorted"
    and route: "route = generateRouteWithWaypoints og dn sel mode"
    by blast
  from a route have "v \<in> set (memoryWaypoints (generateRouteWithWaypoints og dn sel mode))"
    by simp
  with sel sorted_ok show "detourTime v \<le> maxDetourMinutes"
    by (intro route_waypoints_bounded [of sel maxDetourMinutes v og dn mode]) auto
qed

theorem selected_waypoints_within_budget_witness:
  "nearWaypoint \<in> set (slice0 5 (sortWaypointsByPriority
        (findPotentialMemoryWaypoints equatorPoint northPole [memoryAt ''near'' equatorPoint 5] 10)))
   \<and> calculateRoutes [memoryAt ''near'' equatorPoint 5] noShuffle ''driving'' 10 5
        (setOriginAndDestination equatorPoint northPole defaultNavigationState)
      = Inr ((setOriginAndDestination equatorPoint northPole defaultNavigationState)
               \<lparr>currentRoute := Some (generateRouteWithWaypoints equatorPoint northPole
                                        [nearWaypoint] ''driving'')\<rparr>,
             [generateRouteWithWaypoints equatorPoint northPole [nearWaypoint] ''driving''])
   \<and> nearWaypoint \<in> set (memoryWaypoints
        (generateRouteWithWaypoints equatorPoint northPole [nearWaypoint] ''driving''))
   \<and> detourTime nearWaypoint \<le> 10"
proof -
  have sel: "slice0 5 (sortWaypointsByPriority
        (findPotentialMemoryWaypoints equatorPoint northPole [memoryAt ''near'' equatorPoint 5] 10))
      = [nearWaypoint]"
    unfolding near_candidate by (simp add: sortWaypointsByPriority_def slice0_def)
  have calc: "calculateRoutes [memoryAt ''near'' equatorPoint 5] noShuffle ''driving'' 10 5
        (setOriginAndDestination equatorPoint northPole defaultNavigationState)
      = Inr ((setOriginAndDestination equatorPoint northPole defaultNavigationState)
               \<lparr>currentRoute := Some (generateRouteWithWaypoints equatorPoint northPole
                                        [nearWaypoint] ''driving'')\<rparr>,
             [generateRouteWithWaypoints equatorPoint northPole [nearWaypoint] ''driving''])"
    by (simp add: calculateRoutes_def calculateRoutes_in_def setOriginAndDestination_def
        defaultNavigationState_def Let_def near_candidate sortWaypointsByPriority_def
        slice0_def generateAlternativeRoutes_def)
  have mem: "nearWaypoint \<in> set (memoryWaypoints
        (generateRouteWithWaypoints equatorPoint northPole [nearWaypoint] ''driving''))"
    by (simp add: memoryWaypoints_route order_single)
  from selected_waypoints_within_budget
    [of nearWaypoint 5 equatorPoint northPole "[memoryAt ''near'' equatorPoint 5]" 10
        noShuffle "''driving''"
        "setOriginAndDestination equatorPoint northPole defaultNavigationState"
        "(setOriginAndDestination equatorPoint northPole defaultNavigationState)
           \<lparr>currentRoute := Some (generateRouteWithWaypoints equatorPoint northPole
                                    [nearWaypoint] ''driving'')\<rparr>"
        "[generateRouteWithWaypoints equatorPoint northPole [nearWaypoint] ''driving'']"
        "generateRouteWithWaypoints equatorPoint northPole [nearWaypoint] ''driving''"
        nearWaypoint]
    sel calc mem
  show ?thesis by simp
qed

subsection \<open>The detour time\<close>

text \<open>
  Claim C5, as stated: the selector computes the detour time of a candidate as its detour
  distance divided by the speed of the chosen transport mode and by 60.  It does not
  hold: for a trip from the equator to the pole and a candidate on the far side of the
  earth, the detour time of the waypoint differs from that quotient for each of the four
  modes.
\<close>

theorem detour_time_by_mode_counterexample:
  "findPotentialMemoryWaypoints equatorPoint northPole [memoryAt ''far'' oppositePoint 5] 40000
     = [farWaypoint]
   \<and> detourTime farWaypoint \<noteq> distanceFromRoute farWaypoint / getBaseSpeedForMode ''walking'' / 60
   \<and> detourTime farWaypoint \<noteq> distanceFromRoute farWaypoint / getBaseSpeedForMode ''bicycling'' / 60
   \<and> detourTime farWaypoint \<noteq> distanceFromRoute farWaypoint / getBaseSpeedForMode ''transit'' / 60
   \<and> detourTime farWaypoint \<noteq> distanceFromRoute farWaypoint / getBaseSpeedForMode ''driving'' / 60"
  using pi_gt_zero
  by (simp add: far_candidate farWaypoint_def speed_walking speed_bicycling speed_transit
      speed_driving)

text \<open>
  Claim C5, amended: for every candidate that the selector returns, the detour time in
  minutes is the detour distance in kilometres divided by a fixed speed of 50 km/h, taken
  per minute; the detour distance is the way over the candidate minus the direct way.
  The selector takes no transport mode, so the detour-time filter is the same for every
  mode.
\<close>

theorem detour_time_fixed_speed:
  "w \<in> set (findPotentialMemoryWaypoints o_c d_c ms maxDetourMinutes) \<Longrightarrow>
     detourTime w = (distanceFromRoute w / 1000) / (50 / 60)
     \<and> distanceFromRoute w =
         calculateDistance o_c (memoryCoord (memory w))
         + calculateDistance (memoryCoord (memory w)) d_c - calculateDistance o_c d_c"
  by (auto simp: findPotentialMemoryWaypoints_def detourWaypoint_def Let_def)

theorem detour_time_fixed_speed_witness:
  "farWaypoint \<in> set (findPotentialMemoryWaypoints equatorPoint northPole
                         [memoryAt ''far'' oppositePoint 5] 40000)
   \<and> detourTime farWaypoint = (distanceFromRoute farWaypoint / 1000) / (50 / 60)
   \<and> distanceFromRoute farWaypoint =
         calculateDistance equatorPoint (memoryCoord (memory farWaypoint))
         + calculateDistance (memoryCoord (memory farWaypoint)) northPole
         - calculateDistance equatorPoint northPole"
proof -
  have h: "farWaypoint \<in> set (findPotentialMemoryWaypoints equatorPoint northPole
                         [memoryAt ''far'' oppositePoint 5] 40000)"
    by (simp add: far_candidate)
  from detour_time_fixed_speed [OF h] h show ?thesis
    by simp
qed

subsection \<open>The priority order\<close>

text \<open>
  Claim C6, as stated: the selector sorts by falling score and orders waypoints of equal
  score by the id of their candidate.  It does not hold: two waypoints of equal score
  with the ids a and b come back in the order in which they went in, whichever that is.
\<close>

theorem tie_order_by_id_counterexample:
  "priorityScore tieA = priorityScore tieB
   \<and> id_memory (memory tieA) \<noteq> id_memory (memory tieB)
   \<and> sortWaypointsByPriority [tieA, tieB] = [tieA, tieB]
   \<and> sortWaypointsByPriority [tieB, tieA] = [tieB, tieA]"
  by (simp add: sortWaypointsByPriority_def priorityScore_def tieA_def tieB_def memoryAt_def)

text \<open>
  Claim C6, amended: for every list of waypoints the selector returns the same waypoints
  ordered by falling score, where the score is ten times the importance minus five times
  the detour time, and waypoints of equal score keep the order they had in the input.
  The output is a function of the input list.
\<close>

theorem sort_by_priority_stable:
  "sorted_wrt (\<lambda>a b. priorityScore b \<le> priorityScore a) (sortWaypointsByPriority ws)
   \<and> mset (sortWaypointsByPriority ws) = mset ws
   \<and> filter (\<lambda>w. priorityScore w = k) (sortWaypointsByPriority ws)
       = filter (\<lambda>w. priorityScore w = k) ws
   \<and> priorityScore w = importance (memory w) * 10 - detourTime w * 5"
proof -
  have "sorted (map (\<lambda>w. - priorityScore w) (sortWaypointsByPriority ws))"
    by (simp add: sortWaypointsByPriority_def)
  then have "sorted_wrt (\<lambda>a b. priorityScore b \<le> priorityScore a) (sortWaypointsByPriority ws)"
    by (simp add: sorted_map)
  moreover have "filter (\<lambda>w. priorityScore w = k) (sortWaypointsByPriority ws)
       = filter (\<lambda>w. priorityScore w = k) ws"
    using sort_key_stable [of "\<lambda>w. - priorityScore w" "- k" ws]
    by (simp add: sortWaypointsByPriority_def)
  ultimately show ?thesis
    by (simp add: sortWaypointsByPriority_def priorityScore_def)
qed

subsection \<open>The visiting order\<close>

text \<open>
  Claim C7: the sequencer keeps every waypoint exactly once and numbers the waypoints
  \<open>0..N-1\<close> in visiting order.  For two or more waypoints the code does so
  (\<open>order_fields\<close>, \<open>order_indices\<close>).  For a single waypoint it returns early and
  the waypoint keeps the index it had among the memories: with two memories and
  \<open>maxMemories = 1\<close> the selector picks the second memory, and the only waypoint of the
  route has index 1 instead of 0.
\<close>

theorem single_waypoint_keeps_memory_index:
  "map waypointIndex (memoryWaypoints (generateRouteWithWaypoints equatorPoint northPole
      (slice0 1 (sortWaypointsByPriority (findPotentialMemoryWaypoints equatorPoint northPole
         [memoryAt ''low'' equatorPoint 1, memoryAt ''high'' equatorPoint 5] 10))) ''driving''))
   = [1]"
  unfolding two_candidates sort_two
  by (simp add: slice0_def memoryWaypoints_route order_single)

subsection \<open>Totals of a route\<close>

text \<open>
  Claim C8: for every origin, destination, waypoint list and transport mode, the distance
  of the assembled route is the sum of the distances of its legs, and its duration is its
  distance divided by the speed of the mode.  In the arithmetic of the reals both hold
  exactly; the rounding tolerance of the claim covers floating point.
\<close>

theorem route_totals:
  "distance (generateRouteWithWaypoints o_c d_c ws mode)
     = sum_list (map leg_distance (legs (generateRouteWithWaypoints o_c d_c ws mode)))
   \<and> duration (generateRouteWithWaypoints o_c d_c ws mode)
     = distance (generateRouteWithWaypoints o_c d_c ws mode) / getBaseSpeedForMode mode"
proof (cases "length ws = 0")
  case True
  then show ?thesis by (simp add: generateRouteWithWaypoints_def Let_def)
next
  case False
  obtain L td tdur p where loop:
    "legsLoop (getBaseSpeedForMode mode) (orderWaypointsByGreedyPath o_c d_c ws) ([], 0, 0, o_c)
       = (L, td, tdur, p)"
    by (metis prod_cases4)
  from legsLoop_totals [OF loop]
  have "sum_list (map leg_distance L) = td" "tdur = td / getBaseSpeedForMode mode"
    by simp_all
  with False loop show ?thesis
    by (simp add: generateRouteWithWaypoints_def Let_def add_divide_distrib)
qed

subsection \<open>The direct route\<close>

text \<open>
  Claim C9: for every origin and destination, assembling a route from an empty list of
  selected waypoints gives a route with exactly one leg, no waypoints and the distance
  from the origin to the destination as total distance.  The assembly is a total
  function, so it does not fail.
\<close>

theorem direct_route_without_waypoints:
  "length (legs (generateRouteWithWaypoints o_c d_c [] mode)) = 1
   \<and> memoryWaypoints (generateRouteWithWaypoints o_c d_c [] mode) = []
   \<and> distance (generateRouteWithWaypoints o_c d_c [] mode) = calculateDistance o_c d_c"
  by (simp add: generateRouteWithWaypoints_def Let_def)

subsection \<open>Silent return without an active navigation\<close>

text \<open>
  Claim C10: in every navigation state in which \<open>activeNavigation\<close> is false, the
  location update, with any coordinate, and the advance to the next step return without
  an error and leave every field of the state unchanged.
\<close>

theorem inactive_update_and_advance_are_noops:
  "\<not> activeNavigation s \<Longrightarrow>
     updateCurrentLocation loc s = Inr s \<and> navigateToNextStep s = Inr s"
  by (simp add: updateCurrentLocation_def navigateToNextStep_def split: option.splits)

theorem inactive_update_and_advance_are_noops_witness:
  "\<not> activeNavigation (poleSession\<lparr>activeNavigation := False\<rparr>)
   \<and> updateCurrentLocation northPole (poleSession\<lparr>activeNavigation := False\<rparr>)
       = Inr (poleSession\<lparr>activeNavigation := False\<rparr>)
   \<and> navigateToNextStep (poleSession\<lparr>activeNavigation := False\<rparr>)
       = Inr (poleSession\<lparr>activeNavigation := False\<rparr>)"
proof -
  have h: "\<not> activeNavigation (poleSession\<lparr>activeNavigation := False\<rparr>)"
    by simp
  from inactive_update_and_advance_are_noops [OF h, of northPole] h show ?thesis
    by simp
qed

end
